theory Spec2Isabelle
  imports Main
begin

section \<open>Strings\<close>

text \<open>
  Python's \<^verbatim>\<open>str\<close> is modelled by \<^typ>\<open>string\<close>, one \<^typ>\<open>char\<close> per code point; the
  model covers the code points below 256. \<open>isspace\<close> lists the code points below 256 that
  \<^verbatim>\<open>str.isspace\<close> accepts, which are the ones \<^verbatim>\<open>str.strip()\<close> removes.
\<close>

definition isspace :: "char \<Rightarrow> bool" where
  "isspace c = (of_char c \<in> {9, 10, 11, 12, 13, 28, 29, 30, 31, 32, 133, 160 :: nat})"

definition strip :: "string \<Rightarrow> string" where
  "strip s = rev (dropWhile isspace (rev (dropWhile isspace s)))"

text \<open>\<^verbatim>\<open>s.split(sep)\<close> for a one-character separator: one piece more than separators.\<close>

fun split :: "char \<Rightarrow> string \<Rightarrow> string list" where
  "split sep [] = [[]]"
| "split sep (c # cs) =
     (if c = sep then [] # split sep cs
      else (case split sep cs of [] \<Rightarrow> [[c]] | p # ps \<Rightarrow> (c # p) # ps))"

text \<open>\<^verbatim>\<open>s.replace(old, new)\<close> for one-character \<open>old\<close> and \<open>new\<close>.\<close>

definition replace :: "char \<Rightarrow> char \<Rightarrow> string \<Rightarrow> string" where
  "replace old new s = map (\<lambda>c. if c = old then new else c) s"

text \<open>\<^verbatim>\<open>sep.join(pieces)\<close>.\<close>

fun join :: "string \<Rightarrow> string list \<Rightarrow> string" where
  "join sep [] = []"
| "join sep [p] = p"
| "join sep (p # q # ps) = p @ sep @ join sep (q # ps)"

text \<open>\<^verbatim>\<open>str(n)\<close> for an integer: decimal digits, a minus sign when negative.\<close>

fun str_nat :: "nat \<Rightarrow> string" where
  "str_nat n =
     (if n < 10 then [''0123456789'' ! n]
      else str_nat (n div 10) @ [''0123456789'' ! (n mod 10)])"

definition str_int :: "int \<Rightarrow> string" where
  "str_int i = (if i < 0 then ''-'' @ str_nat (nat (- i)) else str_nat (nat i))"

section \<open>Data model\<close>

record SearchResult =
  title :: string
  description :: string
  url :: string

text \<open>
  Exceptions are values: \<open>Exception m\<close> is an instance of \<^verbatim>\<open>Exception\<close> (or of a subclass)
  with \<^verbatim>\<open>str(e) = m\<close>. A call that may raise returns \<open>exn + 'a\<close>.
\<close>

datatype exn = Exception string

text \<open>
  The parse tree \<^verbatim>\<open>BeautifulSoup\<close> builds: a tag has a name, the list of its classes, its
  other attributes and its children; a leaf is a string.
\<close>

datatype node =
  Tag string "string list" "string \<rightharpoonup> string" "node list"
| NavigableString string

text \<open>All nodes below a node, in document order.\<close>

fun descendants :: "node \<Rightarrow> node list" where
  "descendants (Tag nm cls attrs contents) = concat (map (\<lambda>c. c # descendants c) contents)"
| "descendants (NavigableString s) = []"

fun matches :: "string \<Rightarrow> string \<Rightarrow> node \<Rightarrow> bool" where
  "matches nm klass (Tag n cls attrs contents) = (n = nm \<and> klass \<in> set cls)"
| "matches nm klass (NavigableString s) = False"

text \<open>\<^verbatim>\<open>node.find_all(nm, class_=c)\<close> and \<^verbatim>\<open>node.find(nm, class_=c)\<close>.\<close>

definition find_all :: "string \<Rightarrow> string \<Rightarrow> node \<Rightarrow> node list" where
  "find_all nm klass root = filter (matches nm klass) (descendants root)"

definition find_tag :: "string \<Rightarrow> string \<Rightarrow> node \<Rightarrow> node option" where
  "find_tag nm klass root =
     (case find_all nm klass root of [] \<Rightarrow> None | x # _ \<Rightarrow> Some x)"

fun all_strings :: "node \<Rightarrow> string list" where
  "all_strings (Tag nm cls attrs contents) = concat (map all_strings contents)"
| "all_strings (NavigableString s) = [s]"

text \<open>\<^verbatim>\<open>node.get_text(strip=True)\<close>: every string stripped, the empty ones dropped.\<close>

definition get_text :: "node \<Rightarrow> string" where
  "get_text nd = concat (filter (\<lambda>s. s \<noteq> []) (map strip (all_strings nd)))"

text \<open>\<^verbatim>\<open>node.get(key, default)\<close>.\<close>

fun get_attr :: "node \<Rightarrow> string \<Rightarrow> string \<Rightarrow> string" where
  "get_attr (Tag nm cls attrs contents) key dflt =
     (case attrs key of None \<Rightarrow> dflt | Some v \<Rightarrow> v)"
| "get_attr (NavigableString s) key dflt = dflt"

subsection \<open>The network\<close>

text \<open>
  A \<^verbatim>\<open>requests.Response\<close> as the program reads it: \<open>response_text\<close> is \<^verbatim>\<open>response.text\<close>, \<open>json_text\<close> the outcome of
  \<^verbatim>\<open>response.json()['content'][0]['text']\<close> and \<open>soup\<close> the outcome of
  \<^verbatim>\<open>BeautifulSoup(response.content, 'html.parser')\<close>; either may raise.
\<close>

record response =
  status_code :: int
  response_text :: string
  json_text :: "exn + string"
  soup :: "exn + node"

record data =
  model :: string
  max_tokens :: nat
  messages :: "(string \<times> string) list"

datatype request =
  POST string "(string \<times> string) list" data
| GET string "(string \<times> string) list" nat

text \<open>
  The outside world: the reply to the \<open>n\<close>-th network call of a run (counting from 0),
  given the request. \<open>Inl\<close> is an exception raised by \<^verbatim>\<open>requests\<close>.
\<close>

type_synonym network = "nat \<Rightarrow> request \<Rightarrow> exn + response"

section \<open>SEOWorkerThread\<close>

datatype signal =
  progress_updated string
| finished string
| error_occurred string

text \<open>
  The thread object: its three attributes, the signals it has emitted and the network calls
  it has made, both in order.
\<close>

record worker =
  text_in :: string
  claude_api_key :: string
  search_results :: "SearchResult list"
  emitted :: "signal list"
  requests :: "request list"

definition SEOWorkerThread :: "string \<Rightarrow> string \<Rightarrow> worker" where
  "SEOWorkerThread txt key =
     \<lparr>text_in = txt, claude_api_key = key, search_results = [], emitted = [], requests = []\<rparr>"

definition emit :: "signal \<Rightarrow> worker \<Rightarrow> worker" where
  "emit s w = w\<lparr>emitted := emitted w @ [s]\<rparr>"

definition send :: "network \<Rightarrow> request \<Rightarrow> worker \<Rightarrow> (exn + response) \<times> worker" where
  "send net rq w = (net (length (requests w)) rq, w\<lparr>requests := requests w @ [rq]\<rparr>)"

definition claude_headers :: "string \<Rightarrow> (string \<times> string) list" where
  "claude_headers key =
     [(''Content-Type'', ''application/json''),
      (''X-API-Key'', key),
      (''anthropic-version'', ''2023-06-01'')]"

definition extract_prompt :: "string \<Rightarrow> string" where
  "extract_prompt txt =
     ''\<newline>''
   @ ''        Analyze the following text and extract 5-10 relevant search terms that would help with SEO optimization. \<newline>''
   @ ''        Focus on key topics, important keywords, and phrases that people might search for.\<newline>''
   @ ''        Return only the search terms, one per line, without numbering or explanation.\<newline>''
   @ ''        \<newline>''
   @ ''        Text: '' @ txt @ ''\<newline>''
   @ ''        ''"

definition extract_request :: "string \<Rightarrow> string \<Rightarrow> request" where
  "extract_request key txt =
     POST ''https://api.anthropic.com/v1/messages'' (claude_headers key)
       \<lparr>model = ''claude-3-5-sonnet-20241022'', max_tokens = 1000,
        messages = [(''user'', extract_prompt txt)]\<rparr>"

text \<open>Lines 85-86: the response text cut into search terms.\<close>

definition parse_terms :: "string \<Rightarrow> string list" where
  "parse_terms content =
     take 10 (map strip (filter (\<lambda>term. strip term \<noteq> []) (split (CHR 0x0A) content)))"

definition claude_error :: "response \<Rightarrow> exn" where
  "claude_error rsp =
     Exception (''Claude API error: '' @ str_int (status_code rsp) @ '' - '' @ response_text rsp)"

definition extract_search_terms ::
    "network \<Rightarrow> string \<Rightarrow> worker \<Rightarrow> (exn + string list) \<times> worker" where
  "extract_search_terms net txt w =
     (case send net (extract_request (claude_api_key w) txt) w of
        (Inl e, w') \<Rightarrow> (Inl e, w')
      | (Inr rsp, w') \<Rightarrow>
          if status_code rsp = 200 then
            (case json_text rsp of
               Inl e \<Rightarrow> (Inl e, w')
             | Inr content \<Rightarrow> (Inr (parse_terms content), w'))
          else (Inl (claude_error rsp), w'))"

subsection \<open>perform_searches\<close>

definition search_headers :: "(string \<times> string) list" where
  "search_headers =
     [(''User-Agent'', ''Mozilla/5.0 (Windows NT 10.0; Win64; x64) AppleWebKit/537.36'')]"

definition search_url :: "string \<Rightarrow> string" where
  "search_url term = ''https://duckduckgo.com/html/?q='' @ replace (CHR '' '') (CHR ''+'') term"

definition search_request :: "string \<Rightarrow> request" where
  "search_request term = GET (search_url term) search_headers 10"

text \<open>
  Lines 111-119: what one result container adds to the collected results. A tag is true
  whatever it contains, so the test of line 114 asks whether both were found.
\<close>

definition container_result :: "node \<Rightarrow> SearchResult list" where
  "container_result result =
     (let title_elem = find_tag ''a'' ''result__a'' result;
          snippet_elem = find_tag ''a'' ''result__snippet'' result
      in case (title_elem, snippet_elem) of
           (Some t, Some s) \<Rightarrow>
             [\<lparr>title = get_text t, description = get_text s, url = get_attr t ''href'' ''''\<rparr>]
         | _ \<Rightarrow> [])"

text \<open>Lines 108-119: the results taken from one parsed page.\<close>

definition page_results :: "node \<Rightarrow> SearchResult list" where
  "page_results sp = concat (map container_result (take 5 (find_all ''div'' ''result'' sp)))"

definition search_error :: "string \<Rightarrow> exn \<Rightarrow> signal" where
  "search_error term e =
     (case e of Exception m \<Rightarrow>
        progress_updated (''Search error for '' @ [CHR 0x27] @ term @ [CHR 0x27] @ '': '' @ m))"

text \<open>The body of the loop over the terms, with its \<^verbatim>\<open>try\<close> and \<^verbatim>\<open>except\<close>.\<close>

definition search_term :: "network \<Rightarrow> string \<Rightarrow> worker \<Rightarrow> worker" where
  "search_term net term w =
     (let w1 = emit (progress_updated (''Searching for: '' @ term)) w
      in case send net (search_request term) w1 of
           (Inl e, w2) \<Rightarrow> emit (search_error term e) w2
         | (Inr rsp, w2) \<Rightarrow>
             if status_code rsp = 200 then
               (case soup rsp of
                  Inl e \<Rightarrow> emit (search_error term e) w2
                | Inr sp \<Rightarrow> w2\<lparr>search_results := search_results w2 @ page_results sp\<rparr>)
             else w2)"

fun perform_searches :: "network \<Rightarrow> string list \<Rightarrow> worker \<Rightarrow> worker" where
  "perform_searches net [] w = w"
| "perform_searches net (term # terms) w = perform_searches net terms (search_term net term w)"

subsection \<open>seo_optimize_text\<close>

definition context_entry :: "SearchResult \<Rightarrow> string" where
  "context_entry result =
     ''Title: '' @ title result @ ''\<newline>'' @ ''Description: '' @ description result @ ''\<newline>''"

definition context_entries :: "SearchResult list \<Rightarrow> string list" where
  "context_entries results = map context_entry (take 20 results)"

definition search_context :: "SearchResult list \<Rightarrow> string" where
  "search_context results = join ''\<newline>'' (context_entries results)"

definition seo_prompt :: "string \<Rightarrow> string \<Rightarrow> string" where
  "seo_prompt original_text context =
     ''\<newline>''
   @ ''        Please optimize the following text for SEO based on the search results provided. \<newline>''
   @ ''        Use the titles and descriptions as reference to understand what content performs well for related topics.\<newline>''
   @ ''        \<newline>''
   @ ''        Improve the text by:\<newline>''
   @ ''        1. Adding relevant keywords naturally\<newline>''
   @ ''        2. Improving readability and structure\<newline>''
   @ ''        3. Making it more engaging\<newline>''
   @ ''        4. Ensuring it addresses topics that appear frequently in the search results\<newline>''
   @ ''        \<newline>''
   @ ''        Keep the core message and style intact while making it more SEO-friendly. Keep the word count almost same plus or minus a few words. Create a few variations of the SEO optimised text.\<newline>''
   @ ''        \<newline>''
   @ ''        Original Text:\<newline>''
   @ ''        '' @ original_text @ ''\<newline>''
   @ ''        \<newline>''
   @ ''        Search Results for Reference:\<newline>''
   @ ''        '' @ context @ ''\<newline>''
   @ ''        \<newline>''
   @ ''        Output just the optimised texts, do not output anything else.\<newline>''
   @ ''        ''"

definition rewrite_request :: "string \<Rightarrow> string \<Rightarrow> SearchResult list \<Rightarrow> request" where
  "rewrite_request key original_text results =
     POST ''https://api.anthropic.com/v1/messages'' (claude_headers key)
       \<lparr>model = ''claude-3-5-sonnet-20241022'', max_tokens = 2000,
        messages = [(''user'', seo_prompt original_text (search_context results))]\<rparr>"

definition seo_optimize_text ::
    "network \<Rightarrow> string \<Rightarrow> SearchResult list \<Rightarrow> worker \<Rightarrow> (exn + string) \<times> worker" where
  "seo_optimize_text net original_text results w =
     (case send net (rewrite_request (claude_api_key w) original_text results) w of
        (Inl e, w') \<Rightarrow> (Inl e, w')
      | (Inr rsp, w') \<Rightarrow>
          if status_code rsp = 200 then
            (case json_text rsp of
               Inl e \<Rightarrow> (Inl e, w')
             | Inr t \<Rightarrow> (Inr t, w'))
          else (Inl (claude_error rsp), w'))"

subsection \<open>run\<close>

definition run :: "network \<Rightarrow> worker \<Rightarrow> worker" where
  "run net w =
     (let w1 = emit (progress_updated ''Extracting search terms using Claude...'') w
      in case extract_search_terms net (text_in w1) w1 of
           (Inl (Exception m), w2) \<Rightarrow> emit (error_occurred m) w2
         | (Inr search_terms, w2) \<Rightarrow>
             (let w3 = emit (progress_updated ''Performing Google searches...'') w2;
                  w4 = perform_searches net search_terms w3;
                  w5 = emit (progress_updated ''Optimizing content with Claude...'') w4
              in case seo_optimize_text net (text_in w5) (search_results w5) w5 of
                   (Inl (Exception m), w6) \<Rightarrow> emit (error_occurred m) w6
                 | (Inr optimized_text, w6) \<Rightarrow> emit (finished optimized_text) w6))"

section \<open>SEOOptimizerApp\<close>

datatype dialog = Warning string string | Critical string string

text \<open>
  The window, as far as \<^verbatim>\<open>start_processing\<close> and the three slots read and write it.
  \<open>dialogs\<close> lists the message boxes shown, in order.
\<close>

record app =
  input_text :: string
  api_key_input :: string
  process_btn_enabled :: bool
  progress_bar_visible :: bool
  output_text :: string
  status_label :: string
  dialogs :: "dialog list"
  current_worker :: "worker option"

text \<open>
  The second component is the thread handed to \<^verbatim>\<open>start()\<close>: \<open>None\<close> when the method
  returns before constructing one.
\<close>

definition start_processing :: "app \<Rightarrow> app \<times> worker option" where
  "start_processing a =
     (let txt = strip (input_text a);
          api_key = strip (api_key_input a)
      in if txt = [] then
           (a\<lparr>dialogs := dialogs a @ [Warning ''Warning'' ''Please enter text to optimize.'']\<rparr>,
            None)
         else if api_key = [] then
           (a\<lparr>dialogs := dialogs a @ [Warning ''Warning'' ''Please enter your Claude API key.'']\<rparr>,
            None)
         else
           (let w = SEOWorkerThread txt api_key
            in (a\<lparr>process_btn_enabled := False, progress_bar_visible := True,
                  output_text := [], current_worker := Some w\<rparr>,
                Some w)))"

definition update_status :: "string \<Rightarrow> app \<Rightarrow> app" where
  "update_status message a = a\<lparr>status_label := message\<rparr>"

definition reset_ui :: "app \<Rightarrow> app" where
  "reset_ui a = a\<lparr>process_btn_enabled := True, progress_bar_visible := False\<rparr>"

definition processing_finished :: "string \<Rightarrow> app \<Rightarrow> app" where
  "processing_finished optimized_text a =
     reset_ui (a\<lparr>output_text := optimized_text,
                 status_label := ''Optimization completed successfully!''\<rparr>)"

definition processing_error :: "string \<Rightarrow> app \<Rightarrow> app" where
  "processing_error error_message a =
     reset_ui (a\<lparr>dialogs := dialogs a
                   @ [Critical ''Error'' (''An error occurred:\<newline>'' @ error_message)],
                 status_label := ''Error occurred during processing.''\<rparr>)"

text \<open>The connections made in \<^verbatim>\<open>start_processing\<close>: each signal reaches its slot.\<close>

fun deliver :: "signal \<Rightarrow> app \<Rightarrow> app" where
  "deliver (progress_updated m) a = update_status m a"
| "deliver (finished t) a = processing_finished t a"
| "deliver (error_occurred m) a = processing_error m a"

text \<open>
  One click on the button: \<^verbatim>\<open>start_processing\<close>, then the started thread (if any) runs
  and its signals are delivered. The result is the window and the network calls made.
\<close>

definition click :: "network \<Rightarrow> app \<Rightarrow> app \<times> request list" where
  "click net a =
     (case start_processing a of
        (a', None) \<Rightarrow> (a', [])
      | (a', Some w) \<Rightarrow>
          (let w' = run net w in (fold deliver (emitted w') a', requests w')))"

section \<open>Notions used to state the properties\<close>

text \<open>
  The parsing of the response as the specification words it: split on newlines, trim each
  piece, discard the pieces that are empty after trimming, keep at most 10.
\<close>

definition parse_terms_spec :: "string \<Rightarrow> string list" where
  "parse_terms_spec content =
     take 10 (filter (\<lambda>piece. piece \<noteq> []) (map strip (split (CHR 0x0A) content)))"

text \<open>
  The replies the search queries of a list of terms receive, when the first of them is the
  \<open>k\<close>-th network call of the run.
\<close>

fun search_replies :: "network \<Rightarrow> nat \<Rightarrow> string list \<Rightarrow> (exn + response) list" where
  "search_replies net k [] = []"
| "search_replies net k (term # terms) =
     net k (search_request term) # search_replies net (Suc k) terms"

text \<open>The exception a term's search ends with, if any: raised by the request or by the parser.\<close>

definition reply_error :: "exn + response \<Rightarrow> exn option" where
  "reply_error r =
     (case r of
        Inl e \<Rightarrow> Some e
      | Inr rsp \<Rightarrow>
          if status_code rsp = 200 then (case soup rsp of Inl e \<Rightarrow> Some e | Inr sp \<Rightarrow> None)
          else None)"

text \<open>The results a reply contributes: those of its page when it is a success page.\<close>

definition reply_results :: "exn + response \<Rightarrow> SearchResult list" where
  "reply_results r =
     (case r of
        Inl e \<Rightarrow> []
      | Inr rsp \<Rightarrow>
          if status_code rsp = 200 then (case soup rsp of Inl e \<Rightarrow> [] | Inr sp \<Rightarrow> page_results sp)
          else [])"

text \<open>
  URL encoding of a query value as the specification names it (the form encoding of
  \<^verbatim>\<open>urllib.parse.quote_plus\<close>): letters, digits and \<^verbatim>\<open>_.-~\<close> stay, a space becomes
  \<^verbatim>\<open>+\<close>, every other character becomes \<^verbatim>\<open>%XX\<close> for each byte of its UTF-8 encoding.
\<close>

definition unreserved :: "char \<Rightarrow> bool" where
  "unreserved c =
     (let n = (of_char c :: nat)
      in (65 \<le> n \<and> n \<le> 90) \<or> (97 \<le> n \<and> n \<le> 122) \<or> (48 \<le> n \<and> n \<le> 57)
         \<or> c = CHR ''_'' \<or> c = CHR ''.'' \<or> c = CHR ''-'' \<or> c = CHR ''~'')"

definition hex_digit :: "nat \<Rightarrow> char" where
  "hex_digit n = ''0123456789ABCDEF'' ! n"

definition percent :: "nat \<Rightarrow> string" where
  "percent b = [CHR ''%'', hex_digit (b div 16), hex_digit (b mod 16)]"

definition utf8 :: "char \<Rightarrow> nat list" where
  "utf8 c = (let n = (of_char c :: nat) in if n < 128 then [n] else [192 + n div 64, 128 + n mod 64])"

definition url_encode_char :: "char \<Rightarrow> string" where
  "url_encode_char c =
     (if unreserved c then [c] else if c = CHR '' '' then ''+'' else concat (map percent (utf8 c)))"

definition url_encoded_spec :: "string \<Rightarrow> string" where
  "url_encoded_spec term = concat (map url_encode_char term)"

text \<open>
  What the extract and the rewrite step make of the reply to their request: the text of a
  200 response, or the exception that is raised.
\<close>

definition llm_outcome :: "exn + response \<Rightarrow> exn + string" where
  "llm_outcome r =
     (case r of
        Inl e \<Rightarrow> Inl e
      | Inr rsp \<Rightarrow> if status_code rsp = 200 then json_text rsp else Inl (claude_error rsp))"

text \<open>The signal a run ends with, given the outcome of its last step.\<close>

definition terminal_signal :: "exn + string \<Rightarrow> signal" where
  "terminal_signal r = (case r of Inl (Exception m) \<Rightarrow> error_occurred m | Inr t \<Rightarrow> finished t)"

text \<open>The signals the search of one term emits, given the reply to its query.\<close>

definition reply_signals :: "string \<Rightarrow> exn + response \<Rightarrow> signal list" where
  "reply_signals term r =
     progress_updated (''Searching for: '' @ term)
     # (case reply_error r of None \<Rightarrow> [] | Some e \<Rightarrow> [search_error term e])"

section \<open>Example inputs\<close>

definition empty_page :: node where
  "empty_page = Tag ''[document]'' [] Map.empty []"

definition reply :: "int \<Rightarrow> string \<Rightarrow> exn + response" where
  "reply status t =
     Inr \<lparr>status_code = status, response_text = t, json_text = Inr t, soup = Inr empty_page\<rparr>"

definition coffee_terms :: string where
  "coffee_terms = ''organic coffee\<newline>coffee beans\<newline>buy coffee online''"

definition example_page :: node where
  "example_page =
     Tag ''[document]'' [] Map.empty
       [Tag ''div'' [''result'', ''results_links''] Map.empty
          [Tag ''a'' [''result__a''] [''href'' \<mapsto> ''https://example.org/beans'']
             [NavigableString '' Coffee beans '']],
        Tag ''div'' [''result''] Map.empty
          [Tag ''h2'' [] Map.empty
             [Tag ''a'' [''result__a''] [''href'' \<mapsto> ''https://example.org/shop'']
                [NavigableString ''Coffee shop'']],
           Tag ''a'' [''result__snippet''] Map.empty
             [NavigableString ''Buy '', Tag ''b'' [] Map.empty [NavigableString ''coffee''],
              NavigableString '' online'']]]"

definition page_reply :: "node \<Rightarrow> exn + response" where
  "page_reply sp =
     Inr \<lparr>status_code = 200, response_text = [], json_text = Inl (Exception ''not JSON''),
          soup = Inr sp\<rparr>"

text \<open>The model answers, every search fails to connect.\<close>

definition offline_search_net :: network where
  "offline_search_net n rq =
     (case rq of
        POST u h d \<Rightarrow> if n = 0 then reply 200 coffee_terms else reply 200 ''Optimized text''
      | GET u h t \<Rightarrow> Inl (Exception ''Connection refused''))"

text \<open>The model answers, the second search times out, the others return \<open>example_page\<close>.\<close>

definition flaky_search_net :: network where
  "flaky_search_net n rq =
     (case rq of
        POST u h d \<Rightarrow> if n = 0 then reply 200 coffee_terms else reply 200 ''Optimized text''
      | GET u h t \<Rightarrow> if n = 2 then Inl (Exception ''Read timed out'') else page_reply example_page)"

definition example_app :: "string \<Rightarrow> string \<Rightarrow> app" where
  "example_app txt key =
     \<lparr>input_text = txt, api_key_input = key, process_btn_enabled = True,
      progress_bar_visible = False, output_text = [], status_label = ''Ready'',
      dialogs = [], current_worker = None\<rparr>"

section \<open>Strings: trimming and parsing\<close>

lemma dropWhile_take_hd:
  assumes "xs = [] \<or> \<not> P (hd xs)"
  shows "dropWhile P (take m xs) = take m xs"
  using assms by (cases xs; cases m) auto

lemma rev_dropWhile_rev_take:
  "rev (dropWhile P (rev xs)) = take (length xs - length (takeWhile P (rev xs))) xs"
  by (simp add: dropWhile_eq_drop rev_drop)

lemma strip_no_leading: "dropWhile isspace (strip s) = strip s"
proof -
  let ?d = "dropWhile isspace s"
  have "?d = [] \<or> \<not> isspace (hd ?d)"
    by (metis hd_dropWhile)
  then show ?thesis
    unfolding strip_def rev_dropWhile_rev_take by (rule dropWhile_take_hd)
qed

lemma strip_idem: "strip (strip s) = strip s"
proof -
  have "strip (strip s) = rev (dropWhile isspace (rev (strip s)))"
    by (simp add: strip_def[of "strip s"] strip_no_leading)
  also have "\<dots> = strip s"
    by (simp add: strip_def)
  finally show ?thesis .
qed

lemma parse_terms_eq_spec: "parse_terms content = parse_terms_spec content"
  by (simp add: parse_terms_def parse_terms_spec_def filter_map comp_def)

lemma parse_terms_length: "length (parse_terms content) \<le> 10"
  by (simp add: parse_terms_def)

lemma parse_terms_nonempty:
  assumes "t \<in> set (parse_terms content)"
  shows "t \<noteq> [] \<and> strip t = t"
proof -
  from assms
  have "t \<in> set (map strip (filter (\<lambda>term. strip term \<noteq> []) (split (CHR 0x0A) content)))"
    unfolding parse_terms_def by (rule in_set_takeD)
  then obtain p where "t = strip p" "strip p \<noteq> []" by auto
  then show ?thesis by (simp add: strip_idem)
qed

lemma parse_coffee:
  "parse_terms coffee_terms = [''organic coffee'', ''coffee beans'', ''buy coffee online'']"
  by (simp add: coffee_terms_def parse_terms_def strip_def isspace_def)

section \<open>The worker, step by step\<close>

lemma fresh_worker [simp]:
  "text_in (SEOWorkerThread txt key) = txt"
  "claude_api_key (SEOWorkerThread txt key) = key"
  "search_results (SEOWorkerThread txt key) = []"
  "emitted (SEOWorkerThread txt key) = []"
  "requests (SEOWorkerThread txt key) = []"
  by (simp_all add: SEOWorkerThread_def)

lemma emit_fields [simp]:
  "emitted (emit s w) = emitted w @ [s]"
  "requests (emit s w) = requests w"
  "search_results (emit s w) = search_results w"
  "text_in (emit s w) = text_in w"
  "claude_api_key (emit s w) = claude_api_key w"
  by (simp_all add: emit_def)

lemma extract_search_terms_eq:
  "extract_search_terms net txt w =
     (map_sum id parse_terms
        (llm_outcome (net (length (requests w)) (extract_request (claude_api_key w) txt))),
      w\<lparr>requests := requests w @ [extract_request (claude_api_key w) txt]\<rparr>)"
  by (simp add: extract_search_terms_def send_def llm_outcome_def split: sum.splits)

lemma seo_optimize_text_eq:
  "seo_optimize_text net txt rs w =
     (llm_outcome (net (length (requests w)) (rewrite_request (claude_api_key w) txt rs)),
      w\<lparr>requests := requests w @ [rewrite_request (claude_api_key w) txt rs]\<rparr>)"
  by (simp add: seo_optimize_text_def send_def llm_outcome_def split: sum.splits)

lemma search_error_progress: "\<exists>m. search_error term e = progress_updated m"
  by (cases e) (simp add: search_error_def)

lemma search_term_requests [simp]:
  "requests (search_term net t w) = requests w @ [search_request t]"
  by (simp add: search_term_def send_def Let_def split: sum.splits)

lemma search_term_text_in [simp]: "text_in (search_term net t w) = text_in w"
  by (simp add: search_term_def send_def Let_def split: sum.splits)

lemma search_term_key [simp]: "claude_api_key (search_term net t w) = claude_api_key w"
  by (simp add: search_term_def send_def Let_def split: sum.splits)

lemma search_term_results:
  "search_results (search_term net t w) =
     search_results w @ reply_results (net (length (requests w)) (search_request t))"
  by (simp add: search_term_def send_def Let_def reply_results_def split: sum.splits)

lemma search_term_emitted:
  "emitted (search_term net t w) =
     emitted w @ reply_signals t (net (length (requests w)) (search_request t))"
  by (simp add: search_term_def send_def Let_def reply_signals_def reply_error_def
           split: sum.splits)

lemma perform_searches_requests [simp]:
  "requests (perform_searches net ts w) = requests w @ map search_request ts"
  by (induction ts arbitrary: w) simp_all

lemma perform_searches_text_in [simp]: "text_in (perform_searches net ts w) = text_in w"
  by (induction ts arbitrary: w) simp_all

lemma perform_searches_key [simp]:
  "claude_api_key (perform_searches net ts w) = claude_api_key w"
  by (induction ts arbitrary: w) simp_all

lemma perform_searches_results:
  "search_results (perform_searches net ts w) =
     search_results w @ concat (map reply_results (search_replies net (length (requests w)) ts))"
  by (induction ts arbitrary: w) (simp_all add: search_term_results)

lemma perform_searches_emitted:
  "emitted (perform_searches net ts w) =
     emitted w @ concat (map2 reply_signals ts (search_replies net (length (requests w)) ts))"
  by (induction ts arbitrary: w) (simp_all add: search_term_emitted)

lemma search_replies_length [simp]: "length (search_replies net k ts) = length ts"
  by (induction ts arbitrary: k) simp_all

lemma search_replies_nth:
  "i < length ts \<Longrightarrow> search_replies net k ts ! i = net (k + i) (search_request (ts ! i))"
proof (induction ts arbitrary: k i)
  case Nil
  then show ?case by simp
next
  case (Cons t ts)
  then show ?case by (cases i) simp_all
qed

lemma reply_signals_progress: "\<exists>ps. reply_signals t r = map progress_updated ps"
proof (cases "reply_error r")
  case None
  then have "reply_signals t r = map progress_updated [''Searching for: '' @ t]"
    by (simp add: reply_signals_def)
  then show ?thesis ..
next
  case (Some e)
  obtain m where "search_error t e = progress_updated m"
    using search_error_progress by blast
  with Some have "reply_signals t r = map progress_updated [''Searching for: '' @ t, m]"
    by (simp add: reply_signals_def)
  then show ?thesis ..
qed

lemma search_signals_progress:
  "\<exists>ps. concat (map2 reply_signals ts rs) = map progress_updated ps"
proof (induction ts arbitrary: rs)
  case Nil
  have "concat (map2 reply_signals [] rs) = map progress_updated []" by simp
  then show ?case ..
next
  case (Cons t ts)
  show ?case
  proof (cases rs)
    case Nil
    then have "concat (map2 reply_signals (t # ts) rs) = map progress_updated []" by simp
    then show ?thesis ..
  next
    case (Cons r rs')
    obtain ps where ps: "reply_signals t r = map progress_updated ps"
      using reply_signals_progress by blast
    obtain qs where qs: "concat (map2 reply_signals ts rs') = map progress_updated qs"
      using Cons.IH by blast
    from Cons ps qs
    have "concat (map2 reply_signals (t # ts) rs) = map progress_updated (ps @ qs)"
      by simp
    then show ?thesis ..
  qed
qed

section \<open>The whole run\<close>

lemma run_extract_failed:
  assumes "llm_outcome (net (length (requests w))
             (extract_request (claude_api_key w) (text_in w))) = Inl (Exception m)"
  shows "emitted (run net w) =
           emitted w @ [progress_updated ''Extracting search terms using Claude...'',
                        error_occurred m]"
    and "requests (run net w) = requests w @ [extract_request (claude_api_key w) (text_in w)]"
    and "search_results (run net w) = search_results w"
  using assms by (simp_all add: run_def Let_def extract_search_terms_eq)

lemma run_extract_ok:
  assumes "llm_outcome (net (length (requests w))
             (extract_request (claude_api_key w) (text_in w))) = Inr content"
    and "terms = parse_terms content"
    and "replies = search_replies net (Suc (length (requests w))) terms"
    and "results = search_results w @ concat (map reply_results replies)"
    and "rq = rewrite_request (claude_api_key w) (text_in w) results"
  shows "search_results (run net w) = results"
    and "requests (run net w) =
           requests w @ extract_request (claude_api_key w) (text_in w)
             # map search_request terms @ [rq]"
    and "emitted (run net w) =
           emitted w @ progress_updated ''Extracting search terms using Claude...''
             # progress_updated ''Performing Google searches...''
             # concat (map2 reply_signals terms replies)
             @ [progress_updated ''Optimizing content with Claude...'',
                terminal_signal (llm_outcome (net (Suc (length (requests w)) + length terms) rq))]"
  using assms
  by (simp_all add: run_def Let_def extract_search_terms_eq seo_optimize_text_eq
        perform_searches_results perform_searches_emitted terminal_signal_def
        split: sum.splits exn.splits)

section \<open>Extraction of the search terms\<close>

text \<open>
  C1. Whenever the extract step obtains a response text (status 200, text \<open>content\<close>), the
  terms it returns are the ones the specification describes: \<open>content\<close> split on newlines,
  each piece trimmed, the pieces that are empty after trimming discarded, at most 10 kept.
  So there are at most 10 terms, none is empty and trimming changes none. The response
  \<^verbatim>\<open>organic coffee\ncoffee beans\nbuy coffee online\<close> gives exactly its three lines.
\<close>

theorem extract_search_terms_parses_response:
  assumes "net (length (requests w)) (extract_request (claude_api_key w) inp) = Inr rsp"
    and "status_code rsp = 200"
    and "json_text rsp = Inr content"
  shows "fst (extract_search_terms net inp w) = Inr (parse_terms_spec content)
       \<and> length (parse_terms_spec content) \<le> 10
       \<and> (\<forall>t \<in> set (parse_terms_spec content). t \<noteq> [] \<and> strip t = t)
       \<and> (content = coffee_terms \<longrightarrow>
            parse_terms_spec content = [''organic coffee'', ''coffee beans'', ''buy coffee online''])"
proof -
  have "llm_outcome (net (length (requests w)) (extract_request (claude_api_key w) inp))
          = Inr content"
    using assms by (simp add: llm_outcome_def)
  then have "fst (extract_search_terms net inp w) = Inr (parse_terms content)"
    by (simp add: extract_search_terms_eq)
  moreover have "length (parse_terms content) \<le> 10"
    by (rule parse_terms_length)
  moreover have "\<forall>t \<in> set (parse_terms content). t \<noteq> [] \<and> strip t = t"
    using parse_terms_nonempty by blast
  moreover have "content = coffee_terms \<longrightarrow>
      parse_terms content = [''organic coffee'', ''coffee beans'', ''buy coffee online'']"
    using parse_coffee by simp
  ultimately show ?thesis
    unfolding parse_terms_eq_spec by blast
qed

theorem extract_search_terms_parses_response_witness:
  "offline_search_net 0 (extract_request ''key'' ''Buy organic coffee beans online'')
     = reply 200 coffee_terms
   \<and> (\<exists>terms. fst (extract_search_terms offline_search_net ''Buy organic coffee beans online''
                 (SEOWorkerThread ''Buy organic coffee beans online'' ''key'')) = Inr terms
        \<and> terms = [''organic coffee'', ''coffee beans'', ''buy coffee online'']
        \<and> length terms = 3)"
  using extract_search_terms_parses_response
    [where net = offline_search_net and inp = "''Buy organic coffee beans online''"
       and w = "SEOWorkerThread ''Buy organic coffee beans online'' ''key''"
       and rsp = "\<lparr>status_code = 200, response_text = coffee_terms,
                   json_text = Inr coffee_terms, soup = Inr empty_page\<rparr>"
       and content = coffee_terms]
  by (simp add: offline_search_net_def reply_def extract_request_def)

text \<open>
  C2. When the response of the extract step has a status other than 200, the run emits its
  first progress message and then one \<open>error_occurred\<close> whose message holds the status code
  and the response body, and nothing else. The only network call is the extract request:
  no search query and no rewrite request is sent, and no result is collected.
\<close>

theorem run_extract_non_success:
  assumes "net 0 (extract_request key inp) = Inr rsp"
    and "status_code rsp \<noteq> 200"
  shows "emitted (run net (SEOWorkerThread inp key)) =
           [progress_updated ''Extracting search terms using Claude...'',
            error_occurred (''Claude API error: '' @ str_int (status_code rsp) @ '' - ''
                            @ response_text rsp)]
       \<and> requests (run net (SEOWorkerThread inp key)) = [extract_request key inp]
       \<and> search_results (run net (SEOWorkerThread inp key)) = []"
proof -
  let ?w = "SEOWorkerThread inp key"
  have "llm_outcome (net (length (requests ?w)) (extract_request (claude_api_key ?w) (text_in ?w)))
          = Inl (Exception (''Claude API error: '' @ str_int (status_code rsp) @ '' - ''
                            @ response_text rsp))"
    using assms by (simp add: llm_outcome_def claude_error_def)
  from run_extract_failed[of net ?w, OF this] show ?thesis by simp
qed

theorem run_extract_non_success_witness:
  "status_code \<lparr>status_code = 401, response_text = ''unauthorized'',
                json_text = Inr ''unauthorized'', soup = Inr empty_page\<rparr> \<noteq> 200
   \<and> emitted (run (\<lambda>n rq. reply 401 ''unauthorized'') (SEOWorkerThread ''hello'' ''key'')) =
       [progress_updated ''Extracting search terms using Claude...'',
        error_occurred ''Claude API error: 401 - unauthorized'']
   \<and> requests (run (\<lambda>n rq. reply 401 ''unauthorized'') (SEOWorkerThread ''hello'' ''key'')) =
       [extract_request ''key'' ''hello'']"
  using run_extract_non_success
    [where net = "\<lambda>n rq. reply 401 ''unauthorized''" and inp = "''hello''" and key = "''key''"
       and rsp = "\<lparr>status_code = 401, response_text = ''unauthorized'',
                   json_text = Inr ''unauthorized'', soup = Inr empty_page\<rparr>"]
  by (simp add: reply_def str_int_def)

section \<open>Searching\<close>

lemma find_tag_Some:
  assumes "find_tag nm klass c = Some t"
  shows "t \<in> set (descendants c) \<and> matches nm klass t"
proof -
  from assms obtain rest where "find_all nm klass c = t # rest"
    by (auto simp: find_tag_def split: list.splits)
  then have "t \<in> set (filter (matches nm klass) (descendants c))"
    by (simp add: find_all_def)
  then show ?thesis by simp
qed

lemma container_result_cases:
  "container_result c =
     (case find_tag ''a'' ''result__a'' c of
        None \<Rightarrow> []
      | Some t \<Rightarrow>
          (case find_tag ''a'' ''result__snippet'' c of
             None \<Rightarrow> []
           | Some s \<Rightarrow>
               [\<lparr>title = get_text t, description = get_text s,
                 url = get_attr t ''href'' ''''\<rparr>]))"
  by (simp add: container_result_def Let_def split: option.splits)

lemma container_result_length: "length (container_result c) \<le> 1"
  by (simp add: container_result_cases split: option.splits)

lemma concat_map_length_le:
  assumes "\<And>x. length (f x) \<le> 1"
  shows "length (concat (map f xs)) \<le> length xs"
proof (induction xs)
  case Nil
  then show ?case by simp
next
  case (Cons x xs)
  have "length (f x) \<le> 1" by (rule assms)
  with Cons show ?case by simp
qed

lemma page_results_length: "length (page_results sp) \<le> 5"
proof -
  have "length (page_results sp) \<le> length (take 5 (find_all ''div'' ''result'' sp))"
    unfolding page_results_def by (rule concat_map_length_le) (rule container_result_length)
  then show ?thesis by simp
qed

lemma page_results_origin:
  assumes "r \<in> set (page_results sp)"
  shows "\<exists>c \<in> set (take 5 (find_all ''div'' ''result'' sp)). \<exists>t s.
           find_tag ''a'' ''result__a'' c = Some t
         \<and> find_tag ''a'' ''result__snippet'' c = Some s
         \<and> r = \<lparr>title = get_text t, description = get_text s, url = get_attr t ''href'' ''''\<rparr>"
proof -
  from assms obtain c where c: "c \<in> set (take 5 (find_all ''div'' ''result'' sp))"
    and r: "r \<in> set (container_result c)"
    by (auto simp: page_results_def)
  from r have "\<exists>t s. find_tag ''a'' ''result__a'' c = Some t
         \<and> find_tag ''a'' ''result__snippet'' c = Some s
         \<and> r = \<lparr>title = get_text t, description = get_text s, url = get_attr t ''href'' ''''\<rparr>"
    by (cases "find_tag ''a'' ''result__a'' c"; cases "find_tag ''a'' ''result__snippet'' c")
       (simp_all add: container_result_cases)
  with c show ?thesis by blast
qed

text \<open>
  C7. When the search of a term returns a success page (status 200, parsed as \<open>sp\<close>), the
  results added for the term are those of the page: at most 5; each one built from one of
  the first 5 result containers, out of the title anchor and the snippet element found in
  that container; a container in which either is missing adds nothing; a page without any
  container adds nothing; and the only signal is the progress message of the query, so
  nothing is reported as an error.
\<close>

theorem search_term_success_page:
  assumes "net (length (requests w)) (search_request tm) = Inr rsp"
    and "status_code rsp = 200"
    and "soup rsp = Inr sp"
  shows "search_results (search_term net tm w) = search_results w @ page_results sp
       \<and> length (page_results sp) \<le> 5
       \<and> (\<forall>r \<in> set (page_results sp).
             \<exists>c \<in> set (take 5 (find_all ''div'' ''result'' sp)). \<exists>t s.
                find_tag ''a'' ''result__a'' c = Some t
              \<and> find_tag ''a'' ''result__snippet'' c = Some s
              \<and> t \<in> set (descendants c) \<and> s \<in> set (descendants c)
              \<and> r = \<lparr>title = get_text t, description = get_text s,
                      url = get_attr t ''href'' ''''\<rparr>)
       \<and> (\<forall>c. find_tag ''a'' ''result__a'' c = None \<or> find_tag ''a'' ''result__snippet'' c = None
             \<longrightarrow> container_result c = [])
       \<and> (find_all ''div'' ''result'' sp = []
             \<longrightarrow> search_results (search_term net tm w) = search_results w)
       \<and> emitted (search_term net tm w)
           = emitted w @ [progress_updated (''Searching for: '' @ tm)]"
proof -
  have results: "search_results (search_term net tm w) = search_results w @ page_results sp"
    using assms by (simp add: search_term_results reply_results_def)
  have origin: "\<forall>r \<in> set (page_results sp).
             \<exists>c \<in> set (take 5 (find_all ''div'' ''result'' sp)). \<exists>t s.
                find_tag ''a'' ''result__a'' c = Some t
              \<and> find_tag ''a'' ''result__snippet'' c = Some s
              \<and> t \<in> set (descendants c) \<and> s \<in> set (descendants c)
              \<and> r = \<lparr>title = get_text t, description = get_text s,
                      url = get_attr t ''href'' ''''\<rparr>"
  proof
    fix r assume "r \<in> set (page_results sp)"
    from page_results_origin[OF this]
    obtain c t s where c: "c \<in> set (take 5 (find_all ''div'' ''result'' sp))"
      and t: "find_tag ''a'' ''result__a'' c = Some t"
      and s: "find_tag ''a'' ''result__snippet'' c = Some s"
      and r: "r = \<lparr>title = get_text t, description = get_text s,
                    url = get_attr t ''href'' ''''\<rparr>"
      by blast
    from find_tag_Some[OF t] find_tag_Some[OF s]
    have "t \<in> set (descendants c)" "s \<in> set (descendants c)" by simp_all
    with c t s r
    show "\<exists>c \<in> set (take 5 (find_all ''div'' ''result'' sp)). \<exists>t s.
                find_tag ''a'' ''result__a'' c = Some t
              \<and> find_tag ''a'' ''result__snippet'' c = Some s
              \<and> t \<in> set (descendants c) \<and> s \<in> set (descendants c)
              \<and> r = \<lparr>title = get_text t, description = get_text s,
                      url = get_attr t ''href'' ''''\<rparr>"
      by blast
  qed
  have missing: "\<forall>c. find_tag ''a'' ''result__a'' c = None
                   \<or> find_tag ''a'' ''result__snippet'' c = None
             \<longrightarrow> container_result c = []"
    by (auto simp: container_result_cases split: option.splits)
  have none: "find_all ''div'' ''result'' sp = []
             \<longrightarrow> search_results (search_term net tm w) = search_results w"
    using results by (simp add: page_results_def)
  have signals: "emitted (search_term net tm w)
           = emitted w @ [progress_updated (''Searching for: '' @ tm)]"
    using assms by (simp add: search_term_emitted reply_signals_def reply_error_def)
  from results page_results_length origin missing none signals show ?thesis by blast
qed

theorem search_term_success_page_witness:
  "search_results (search_term (\<lambda>n rq. page_reply example_page) ''coffee beans''
      (SEOWorkerThread ''Buy organic coffee beans online'' ''key''))
     = [\<lparr>title = ''Coffee shop'', description = ''Buycoffeeonline'',
         url = ''https://example.org/shop''\<rparr>]
   \<and> emitted (search_term (\<lambda>n rq. page_reply example_page) ''coffee beans''
      (SEOWorkerThread ''Buy organic coffee beans online'' ''key''))
     = [progress_updated ''Searching for: coffee beans'']"
  using search_term_success_page
    [where net = "\<lambda>n rq. page_reply example_page" and tm = "''coffee beans''"
       and w = "SEOWorkerThread ''Buy organic coffee beans online'' ''key''"
       and rsp = "\<lparr>status_code = 200, response_text = [],
                   json_text = Inl (Exception ''not JSON''), soup = Inr example_page\<rparr>"
       and sp = example_page]
  by (simp add: page_reply_def page_results_def example_page_def find_all_def
        container_result_def find_tag_def get_text_def strip_def isspace_def)

text \<open>
  C10. When the search request of a term completes with a status other than 200, the term
  adds no result, the only signal emitted for it is the progress message that precedes
  the query (nothing reports the failure, nothing is raised), and the loop goes on: every
  remaining term is queried.
\<close>

theorem search_term_non_success_silent:
  assumes "net (length (requests w)) (search_request tm) = Inr rsp"
    and "status_code rsp \<noteq> 200"
  shows "search_results (search_term net tm w) = search_results w
       \<and> emitted (search_term net tm w)
           = emitted w @ [progress_updated (''Searching for: '' @ tm)]
       \<and> perform_searches net (tm # rest) w
           = perform_searches net rest (search_term net tm w)
       \<and> requests (perform_searches net (tm # rest) w)
           = requests w @ search_request tm # map search_request rest"
  using assms
  by (simp add: search_term_results search_term_emitted reply_results_def reply_signals_def
        reply_error_def)

theorem search_term_non_success_silent_witness:
  "search_results (search_term (\<lambda>n rq. reply 503 ''unavailable'') ''coffee''
      (SEOWorkerThread ''Buy coffee'' ''key'')) = []
   \<and> emitted (search_term (\<lambda>n rq. reply 503 ''unavailable'') ''coffee''
      (SEOWorkerThread ''Buy coffee'' ''key'')) = [progress_updated ''Searching for: coffee'']
   \<and> requests (perform_searches (\<lambda>n rq. reply 503 ''unavailable'') [''coffee'', ''tea'']
      (SEOWorkerThread ''Buy coffee'' ''key'')) = [search_request ''coffee'', search_request ''tea'']"
  using search_term_non_success_silent
    [where net = "\<lambda>n rq. reply 503 ''unavailable''" and tm = "''coffee''"
       and w = "SEOWorkerThread ''Buy coffee'' ''key''" and rest = "[''tea'']"
       and rsp = "\<lparr>status_code = 503, response_text = ''unavailable'',
                   json_text = Inr ''unavailable'', soup = Inr empty_page\<rparr>"]
  by (simp add: reply_def)

section \<open>The signals of a run\<close>

text \<open>
  C8. The signals of a run are some progress messages followed by exactly one terminal
  signal, which is either \<open>finished\<close> with the optimized text or \<open>error_occurred\<close> with a
  message: never both, and nothing after it.
\<close>

theorem run_signals_progress_then_one_terminal:
  "\<exists>ps t. emitted (run net (SEOWorkerThread inp key)) = map progress_updated ps @ [t]
         \<and> (\<exists>s. t = finished s \<or> t = error_occurred s)"
proof -
  let ?w = "SEOWorkerThread inp key"
  let ?r = "llm_outcome (net (length (requests ?w))
              (extract_request (claude_api_key ?w) (text_in ?w)))"
  show ?thesis
  proof (cases ?r)
    case (Inl e)
    obtain m where "e = Exception m" by (cases e)
    with Inl have "?r = Inl (Exception m)" by simp
    from run_extract_failed(1)[of net ?w, OF this]
    have "emitted (run net ?w) =
            map progress_updated [''Extracting search terms using Claude...'']
            @ [error_occurred m]"
      by simp
    then show ?thesis by blast
  next
    case (Inr content)
    let ?terms = "parse_terms content"
    let ?replies = "search_replies net (Suc (length (requests ?w))) ?terms"
    let ?results = "search_results ?w @ concat (map reply_results ?replies)"
    let ?rq = "rewrite_request (claude_api_key ?w) (text_in ?w) ?results"
    let ?t = "terminal_signal (llm_outcome (net (Suc (length (requests ?w)) + length ?terms) ?rq))"
    obtain ps where ps: "concat (map2 reply_signals ?terms ?replies) = map progress_updated ps"
      using search_signals_progress by blast
    have "emitted (run net ?w) =
            emitted ?w @ progress_updated ''Extracting search terms using Claude...''
             # progress_updated ''Performing Google searches...''
             # concat (map2 reply_signals ?terms ?replies)
             @ [progress_updated ''Optimizing content with Claude...'', ?t]"
      by (rule run_extract_ok(3)[where net = net and w = ?w, OF Inr refl refl refl refl])
    with ps have "emitted (run net ?w) =
            map progress_updated
              (''Extracting search terms using Claude...'' # ''Performing Google searches...''
               # ps @ [''Optimizing content with Claude...''])
            @ [?t]"
      by simp
    moreover have "\<exists>s. ?t = finished s \<or> ?t = error_occurred s"
      by (simp add: terminal_signal_def split: sum.splits exn.splits)
    ultimately show ?thesis by blast
  qed
qed

section \<open>Search failures and the rewrite step\<close>

lemma reply_error_no_results: "reply_error r = Some e \<Longrightarrow> reply_results r = []"
  by (auto simp: reply_error_def reply_results_def split: sum.splits if_splits)

lemma reply_signals_in_concat:
  assumes "i < length ts" and "length rs = length ts"
  shows "set (reply_signals (ts ! i) (rs ! i)) \<subseteq> set (concat (map2 reply_signals ts rs))"
proof -
  from assms have "map2 reply_signals ts rs ! i = reply_signals (ts ! i) (rs ! i)"
    by simp
  moreover from assms have "map2 reply_signals ts rs ! i \<in> set (map2 reply_signals ts rs)"
    by (intro nth_mem) simp
  ultimately show ?thesis by auto
qed

lemma search_error_in_reply_signals:
  "reply_error r = Some e \<Longrightarrow> search_error t e \<in> set (reply_signals t r)"
  by (simp add: reply_signals_def)

lemma llm_outcome_ok:
  "r = Inr rsp \<Longrightarrow> status_code rsp = 200 \<Longrightarrow> json_text rsp = Inr t \<Longrightarrow> llm_outcome r = Inr t"
  by (simp add: llm_outcome_def)

text \<open>
  C3. Take a run whose extract step succeeded with the terms \<open>terms\<close>, and let \<open>replies\<close>
  be what the search queries of these terms receive. Whatever the replies are, every term
  is queried once, in order, and the rewrite request is sent after them: the run reaches
  the rewrite step, and its terminal signal is the one the rewrite reply determines. The
  results handed to the rewrite step are those of the replies, in order, and a search that
  ended with an exception (raised by the request or by the parser) contributes none and is
  reported by a \<open>progress_updated\<close> signal naming the term and the exception.
\<close>

theorem search_failure_does_not_abort_run:
  assumes "net 0 (extract_request key inp) = Inr rsp"
    and "status_code rsp = 200"
    and "json_text rsp = Inr content"
    and "terms = parse_terms content"
    and "replies = search_replies net 1 terms"
    and "w' = run net (SEOWorkerThread inp key)"
  shows "search_results w' = concat (map reply_results replies)
       \<and> requests w' = extract_request key inp # map search_request terms
                          @ [rewrite_request key inp (search_results w')]
       \<and> (\<forall>i<length terms. \<forall>e. reply_error (replies ! i) = Some e \<longrightarrow>
             reply_results (replies ! i) = []
           \<and> (\<exists>m. search_error (terms ! i) e = progress_updated m)
           \<and> search_error (terms ! i) e \<in> set (emitted w'))
       \<and> last (emitted w')
           = terminal_signal (llm_outcome (net (Suc (length terms))
               (rewrite_request key inp (search_results w'))))"
proof -
  let ?w = "SEOWorkerThread inp key"
  have ok: "llm_outcome (net (length (requests ?w))
              (extract_request (claude_api_key ?w) (text_in ?w))) = Inr content"
    using assms(1-3) by (simp add: llm_outcome_ok)
  have terms: "terms = parse_terms content" by (rule assms(4))
  have replies: "replies = search_replies net (Suc (length (requests ?w))) terms"
    using assms(5) by simp
  note facts = run_extract_ok[where net = net and w = ?w, OF ok terms replies refl refl]
  have results: "search_results w' = concat (map reply_results replies)"
    using facts(1) assms(6) by simp
  have reqs: "requests w' = extract_request key inp # map search_request terms
                          @ [rewrite_request key inp (search_results w')]"
    using facts(2) results assms(6) by simp
  have sigs: "emitted w' = progress_updated ''Extracting search terms using Claude...''
             # progress_updated ''Performing Google searches...''
             # concat (map2 reply_signals terms replies)
             @ [progress_updated ''Optimizing content with Claude...'',
                terminal_signal (llm_outcome (net (Suc (length terms))
                  (rewrite_request key inp (search_results w'))))]"
    using facts(3) results assms(6) by simp
  have failures: "\<forall>i<length terms. \<forall>e. reply_error (replies ! i) = Some e \<longrightarrow>
             reply_results (replies ! i) = []
           \<and> (\<exists>m. search_error (terms ! i) e = progress_updated m)
           \<and> search_error (terms ! i) e \<in> set (emitted w')"
  proof (intro allI impI)
    fix i e
    assume i: "i < length terms" and e: "reply_error (replies ! i) = Some e"
    have len: "length replies = length terms"
      using assms(5) by simp
    have "search_error (terms ! i) e \<in> set (reply_signals (terms ! i) (replies ! i))"
      using e by (rule search_error_in_reply_signals)
    with reply_signals_in_concat[OF i len]
    have "search_error (terms ! i) e \<in> set (concat (map2 reply_signals terms replies))"
      by blast
    then have "search_error (terms ! i) e \<in> set (emitted w')"
      unfolding sigs by simp
    with reply_error_no_results[OF e] search_error_progress
    show "reply_results (replies ! i) = []
           \<and> (\<exists>m. search_error (terms ! i) e = progress_updated m)
           \<and> search_error (terms ! i) e \<in> set (emitted w')"
      by blast
  qed
  have "last (emitted w')
           = terminal_signal (llm_outcome (net (Suc (length terms))
               (rewrite_request key inp (search_results w'))))"
    unfolding sigs by simp
  with results reqs failures show ?thesis by blast
qed

theorem search_failure_does_not_abort_run_witness:
  "reply_error (flaky_search_net 2 (search_request ''coffee beans''))
     = Some (Exception ''Read timed out'')
   \<and> progress_updated (''Search error for '' @ [CHR 0x27] @ ''coffee beans'' @ [CHR 0x27]
                        @ '': Read timed out'')
       \<in> set (emitted (run flaky_search_net
                 (SEOWorkerThread ''Buy organic coffee beans online'' ''key'')))
   \<and> length (search_results (run flaky_search_net
                 (SEOWorkerThread ''Buy organic coffee beans online'' ''key''))) = 2
   \<and> last (emitted (run flaky_search_net
                 (SEOWorkerThread ''Buy organic coffee beans online'' ''key'')))
       = finished ''Optimized text''"
proof -
  let ?inp = "''Buy organic coffee beans online''"
  let ?terms = "[''organic coffee'', ''coffee beans'', ''buy coffee online'']"
  let ?replies = "search_replies flaky_search_net 1 ?terms"
  let ?w' = "run flaky_search_net (SEOWorkerThread ?inp ''key'')"
  have h1: "flaky_search_net 0 (extract_request ''key'' ?inp)
              = Inr \<lparr>status_code = 200, response_text = coffee_terms,
                     json_text = Inr coffee_terms, soup = Inr empty_page\<rparr>"
    by (simp add: flaky_search_net_def extract_request_def reply_def)
  have h4: "?terms = parse_terms coffee_terms"
    by (simp add: parse_coffee)
  note T = search_failure_does_not_abort_run
    [where net = flaky_search_net and w' = ?w' and replies = ?replies, OF h1 _ _ h4 refl refl]
  have T': "search_results ?w' = concat (map reply_results ?replies)
       \<and> requests ?w' = extract_request ''key'' ?inp # map search_request ?terms
                          @ [rewrite_request ''key'' ?inp (search_results ?w')]
       \<and> (\<forall>i<length ?terms. \<forall>e. reply_error (?replies ! i) = Some e \<longrightarrow>
             reply_results (?replies ! i) = []
           \<and> (\<exists>m. search_error (?terms ! i) e = progress_updated m)
           \<and> search_error (?terms ! i) e \<in> set (emitted ?w'))
       \<and> last (emitted ?w')
           = terminal_signal (llm_outcome (flaky_search_net (Suc (length ?terms))
               (rewrite_request ''key'' ?inp (search_results ?w'))))"
    by (rule T) simp_all
  have replies: "?replies = [page_reply example_page, Inl (Exception ''Read timed out''),
                             page_reply example_page]"
    by (simp add: flaky_search_net_def search_request_def)
  have err: "reply_error (?replies ! 1) = Some (Exception ''Read timed out'')"
    unfolding replies by (simp add: reply_error_def)
  note F = T'[THEN conjunct2, THEN conjunct2, THEN conjunct1, rule_format,
              of 1 "Exception ''Read timed out''"]
  have a: "search_error ''coffee beans'' (Exception ''Read timed out'') \<in> set (emitted ?w')"
    using F err by simp
  have page: "length (page_results example_page) = 1"
    by (simp add: page_results_def example_page_def find_all_def container_result_def
          find_tag_def)
  note R = T'[THEN conjunct1]
  from R have b: "length (search_results ?w') = 2"
    unfolding replies by (simp add: reply_results_def page_reply_def page)
  note L = T'[THEN conjunct2, THEN conjunct2, THEN conjunct2]
  from L have c: "last (emitted ?w') = finished ''Optimized text''"
    by (simp add: flaky_search_net_def rewrite_request_def reply_def llm_outcome_def
          terminal_signal_def)
  have d: "reply_error (flaky_search_net 2 (search_request ''coffee beans''))
             = Some (Exception ''Read timed out'')"
    by (simp add: flaky_search_net_def search_request_def reply_error_def)
  from a b c d show ?thesis by (simp add: search_error_def)
qed

text \<open>
  C5. Take a run whose extract step succeeded and in which no search contributes a result
  (for instance because every search fails). The rewrite request is still sent, after the
  queries, with the context block of an empty list of results, which is the empty string.
  Whenever the model answers it with status 200 and a text \<open>optimized\<close>, the run ends
  with \<open>finished optimized\<close>: the text is passed on as it is, after progress messages
  only.
\<close>

theorem no_results_rewrite_with_empty_context:
  assumes "net 0 (extract_request key inp) = Inr rsp"
    and "status_code rsp = 200"
    and "json_text rsp = Inr content"
    and "terms = parse_terms content"
    and "\<forall>r \<in> set (search_replies net 1 terms). reply_results r = []"
    and "w' = run net (SEOWorkerThread inp key)"
  shows "search_results w' = []
       \<and> search_context (search_results w') = []
       \<and> requests w' = extract_request key inp # map search_request terms
                          @ [rewrite_request key inp []]
       \<and> rewrite_request key inp [] =
           POST ''https://api.anthropic.com/v1/messages'' (claude_headers key)
             \<lparr>model = ''claude-3-5-sonnet-20241022'', max_tokens = 2000,
              messages = [(''user'', seo_prompt inp [])]\<rparr>
       \<and> (\<forall>rsp' optimized.
             net (Suc (length terms)) (rewrite_request key inp []) = Inr rsp'
             \<and> status_code rsp' = 200 \<and> json_text rsp' = Inr optimized
             \<longrightarrow> (\<exists>ps. emitted w' = map progress_updated ps @ [finished optimized]))"
proof -
  let ?w = "SEOWorkerThread inp key"
  let ?replies = "search_replies net (Suc (length (requests ?w))) terms"
  have ok: "llm_outcome (net (length (requests ?w))
              (extract_request (claude_api_key ?w) (text_in ?w))) = Inr content"
    using assms(1-3) by (simp add: llm_outcome_ok)
  note facts = run_extract_ok[where net = net and w = ?w, OF ok assms(4) refl refl refl]
  have empty: "concat (map reply_results ?replies) = []"
    using assms(5) by simp
  then have results: "search_results w' = []"
    using facts(1) assms(6) by simp
  have ctx: "search_context (search_results w') = []"
    unfolding results by (simp add: search_context_def context_entries_def)
  have reqs: "requests w' = extract_request key inp # map search_request terms
                          @ [rewrite_request key inp []]"
    using facts(2)[unfolded empty] assms(6) by simp
  have prompt: "rewrite_request key inp [] =
           POST ''https://api.anthropic.com/v1/messages'' (claude_headers key)
             \<lparr>model = ''claude-3-5-sonnet-20241022'', max_tokens = 2000,
              messages = [(''user'', seo_prompt inp [])]\<rparr>"
    by (simp add: rewrite_request_def search_context_def context_entries_def)
  obtain ps where ps: "concat (map2 reply_signals terms ?replies) = map progress_updated ps"
    using search_signals_progress by blast
  have answered: "\<forall>rsp' optimized.
             net (Suc (length terms)) (rewrite_request key inp []) = Inr rsp'
             \<and> status_code rsp' = 200 \<and> json_text rsp' = Inr optimized
             \<longrightarrow> (\<exists>ps. emitted w' = map progress_updated ps @ [finished optimized])"
  proof (intro allI impI)
    fix rsp' optimized
    assume a: "net (Suc (length terms)) (rewrite_request key inp []) = Inr rsp'
             \<and> status_code rsp' = 200 \<and> json_text rsp' = Inr optimized"
    then have answer:
      "llm_outcome (net (Suc (length terms)) (rewrite_request key inp [])) = Inr optimized"
      by (simp add: llm_outcome_ok)
    have "emitted w' = progress_updated ''Extracting search terms using Claude...''
             # progress_updated ''Performing Google searches...''
             # concat (map2 reply_signals terms ?replies)
             @ [progress_updated ''Optimizing content with Claude...'', finished optimized]"
      using facts(3)[unfolded empty] assms(6) answer by (simp add: terminal_signal_def)
    with ps have "emitted w' =
            map progress_updated
              (''Extracting search terms using Claude...'' # ''Performing Google searches...''
               # ps @ [''Optimizing content with Claude...''])
            @ [finished optimized]"
      by simp
    then show "\<exists>ps. emitted w' = map progress_updated ps @ [finished optimized]" ..
  qed
  from results ctx reqs prompt answered show ?thesis by blast
qed

theorem no_results_rewrite_with_empty_context_witness:
  "map reply_results (search_replies offline_search_net 1
        [''organic coffee'', ''coffee beans'', ''buy coffee online'']) = [[], [], []]
   \<and> search_results (run offline_search_net
        (SEOWorkerThread ''Buy organic coffee beans online'' ''key'')) = []
   \<and> last (requests (run offline_search_net
        (SEOWorkerThread ''Buy organic coffee beans online'' ''key'')))
       = rewrite_request ''key'' ''Buy organic coffee beans online'' []
   \<and> last (emitted (run offline_search_net
        (SEOWorkerThread ''Buy organic coffee beans online'' ''key'')))
       = finished ''Optimized text''"
proof -
  let ?inp = "''Buy organic coffee beans online''"
  let ?terms = "[''organic coffee'', ''coffee beans'', ''buy coffee online'']"
  let ?w' = "run offline_search_net (SEOWorkerThread ?inp ''key'')"
  let ?rsp' = "\<lparr>status_code = 200, response_text = ''Optimized text'',
                 json_text = Inr ''Optimized text'', soup = Inr empty_page\<rparr>"
  have h1: "offline_search_net 0 (extract_request ''key'' ?inp)
              = Inr \<lparr>status_code = 200, response_text = coffee_terms,
                     json_text = Inr coffee_terms, soup = Inr empty_page\<rparr>"
    by (simp add: offline_search_net_def extract_request_def reply_def)
  have h4: "?terms = parse_terms coffee_terms"
    by (simp add: parse_coffee)
  have h5: "\<forall>r \<in> set (search_replies offline_search_net 1 ?terms). reply_results r = []"
    by (simp add: offline_search_net_def search_request_def reply_results_def)
  have h6: "offline_search_net (Suc (length ?terms)) (rewrite_request ''key'' ?inp [])
              = Inr ?rsp'
            \<and> status_code ?rsp' = 200 \<and> json_text ?rsp' = Inr ''Optimized text''"
    by (simp add: offline_search_net_def rewrite_request_def reply_def)
  have T: "search_results ?w' = []
       \<and> search_context (search_results ?w') = []
       \<and> requests ?w' = extract_request ''key'' ?inp # map search_request ?terms
                          @ [rewrite_request ''key'' ?inp []]
       \<and> rewrite_request ''key'' ?inp [] =
           POST ''https://api.anthropic.com/v1/messages'' (claude_headers ''key'')
             \<lparr>model = ''claude-3-5-sonnet-20241022'', max_tokens = 2000,
              messages = [(''user'', seo_prompt ?inp [])]\<rparr>
       \<and> (\<forall>rsp' optimized.
             offline_search_net (Suc (length ?terms)) (rewrite_request ''key'' ?inp []) = Inr rsp'
             \<and> status_code rsp' = 200 \<and> json_text rsp' = Inr optimized
             \<longrightarrow> (\<exists>ps. emitted ?w' = map progress_updated ps @ [finished optimized]))"
    by (rule no_results_rewrite_with_empty_context
          [where net = offline_search_net, OF h1 _ _ h4 h5 refl]) simp_all
  from T have a: "search_results ?w' = []" by (rule conjunct1)
  from T[THEN conjunct2, THEN conjunct2, THEN conjunct1]
  have b: "last (requests ?w') = rewrite_request ''key'' ?inp []" by simp
  from T[THEN conjunct2, THEN conjunct2, THEN conjunct2, THEN conjunct2,
         THEN spec, THEN spec, THEN mp, OF h6]
  obtain ps where "emitted ?w' = map progress_updated ps @ [finished ''Optimized text'']" ..
  then have c: "last (emitted ?w') = finished ''Optimized text''" by simp
  have d: "map reply_results (search_replies offline_search_net 1 ?terms) = [[], [], []]"
    by (simp add: offline_search_net_def search_request_def reply_results_def)
  from a b c d show ?thesis by blast
qed

section \<open>The context of the rewrite step\<close>

text \<open>
  C4. The context block of the rewrite step has one entry for each of the first 20
  collected results and none for any later one: the entries are, in order, the title and
  the description of the result at the same position, the block is the entries joined by
  newlines, it is the block of the first 20 results alone, and it is this block that the
  rewrite request carries.
\<close>

theorem search_context_first_20:
  "length (context_entries results) = min 20 (length results)
   \<and> (\<forall>i < length (context_entries results).
         context_entries results ! i =
           ''Title: '' @ title (results ! i) @ ''\<newline>''
           @ ''Description: '' @ description (results ! i) @ ''\<newline>'')
   \<and> search_context results = join ''\<newline>'' (context_entries results)
   \<and> search_context results = search_context (take 20 results)
   \<and> snd (seo_optimize_text net inp results w) =
       w\<lparr>requests := requests w @
           [POST ''https://api.anthropic.com/v1/messages'' (claude_headers (claude_api_key w))
              \<lparr>model = ''claude-3-5-sonnet-20241022'', max_tokens = 2000,
               messages = [(''user'', seo_prompt inp (search_context results))]\<rparr>]\<rparr>"
proof -
  have len: "length (context_entries results) = min 20 (length results)"
    by (simp add: context_entries_def min.commute)
  have nth: "\<forall>i < length (context_entries results).
         context_entries results ! i =
           ''Title: '' @ title (results ! i) @ ''\<newline>''
           @ ''Description: '' @ description (results ! i) @ ''\<newline>''"
    by (simp add: context_entries_def context_entry_def)
  have joined: "search_context results = join ''\<newline>'' (context_entries results)"
    by (simp add: search_context_def)
  have first: "search_context results = search_context (take 20 results)"
    by (simp add: search_context_def context_entries_def)
  have sent: "snd (seo_optimize_text net inp results w) =
       w\<lparr>requests := requests w @
           [POST ''https://api.anthropic.com/v1/messages'' (claude_headers (claude_api_key w))
              \<lparr>model = ''claude-3-5-sonnet-20241022'', max_tokens = 2000,
               messages = [(''user'', seo_prompt inp (search_context results))]\<rparr>]\<rparr>"
    by (simp add: seo_optimize_text_eq rewrite_request_def)
  from len nth joined first sent show ?thesis by blast
qed

theorem search_context_first_20_witness:
  "length (context_entries
      (replicate 25 \<lparr>title = ''Coffee shop'', description = ''Buy coffee'', url = []\<rparr>)) = 20
   \<and> context_entries
        (replicate 25 \<lparr>title = ''Coffee shop'', description = ''Buy coffee'', url = []\<rparr>) ! 19
       = ''Title: Coffee shop\<newline>Description: Buy coffee\<newline>''"
proof -
  let ?rs = "replicate 25 \<lparr>title = ''Coffee shop'', description = ''Buy coffee'', url = []\<rparr>"
  note T = search_context_first_20[where results = ?rs]
  from T[THEN conjunct1] have a: "length (context_entries ?rs) = 20" by simp
  from T[THEN conjunct2, THEN conjunct1, rule_format, of 19] a
  have "context_entries ?rs ! 19 = ''Title: Coffee shop\<newline>Description: Buy coffee\<newline>''"
    by simp
  with a show ?thesis by blast
qed

section \<open>Validation before a run\<close>

lemma strip_empty_iff: "strip s = [] \<longleftrightarrow> (\<forall>c \<in> set s. isspace c)"
proof
  assume "strip s = []"
  then have all: "\<forall>c \<in> set (dropWhile isspace s). isspace c"
    by (simp add: strip_def)
  have "dropWhile isspace s = []"
  proof (rule ccontr)
    assume ne: "dropWhile isspace s \<noteq> []"
    then have "\<not> isspace (hd (dropWhile isspace s))"
      by (rule hd_dropWhile)
    moreover from ne have "hd (dropWhile isspace s) \<in> set (dropWhile isspace s)"
      by simp
    ultimately show False using all by blast
  qed
  then show "\<forall>c \<in> set s. isspace c" by simp
next
  assume "\<forall>c \<in> set s. isspace c"
  then have d: "dropWhile isspace s = []" by simp
  show "strip s = []" unfolding strip_def d by simp
qed

lemma start_processing_accepts:
  assumes "strip (input_text a) \<noteq> []" and "strip (api_key_input a) \<noteq> []"
  shows "snd (start_processing a)
           = Some (SEOWorkerThread (strip (input_text a)) (strip (api_key_input a)))"
  using assms by (simp add: start_processing_def Let_def)

text \<open>
  C6. When the input text is empty or consists of whitespace only, or the credential field
  is (both are trimmed first), \<^verbatim>\<open>start_processing\<close> returns before it constructs a
  worker: no thread is started, the click makes no network call, and the window is left as
  it was except for one warning dialog.
\<close>

theorem start_processing_rejects_blank_input:
  assumes "(\<forall>c \<in> set (input_text a). isspace c) \<or> (\<forall>c \<in> set (api_key_input a). isspace c)"
  shows "snd (start_processing a) = None
       \<and> click net a = (fst (start_processing a), [])
       \<and> (\<exists>msg. fst (start_processing a) = a\<lparr>dialogs := dialogs a @ [Warning ''Warning'' msg]\<rparr>)"
proof -
  from assms have blank: "strip (input_text a) = [] \<or> strip (api_key_input a) = []"
    by (simp add: strip_empty_iff)
  then have none: "snd (start_processing a) = None"
    by (auto simp: start_processing_def Let_def)
  then have no_calls: "click net a = (fst (start_processing a), [])"
    by (cases "start_processing a") (simp add: click_def)
  have "\<exists>msg. fst (start_processing a) = a\<lparr>dialogs := dialogs a @ [Warning ''Warning'' msg]\<rparr>"
  proof (cases "strip (input_text a) = []")
    case True
    then have "fst (start_processing a)
                 = a\<lparr>dialogs := dialogs a @ [Warning ''Warning'' ''Please enter text to optimize.'']\<rparr>"
      by (simp add: start_processing_def Let_def)
    then show ?thesis ..
  next
    case False
    with blank have "fst (start_processing a)
                 = a\<lparr>dialogs := dialogs a @ [Warning ''Warning'' ''Please enter your Claude API key.'']\<rparr>"
      by (simp add: start_processing_def Let_def)
    then show ?thesis ..
  qed
  with none no_calls show ?thesis by blast
qed

theorem start_processing_rejects_blank_input_witness:
  "strip (input_text (example_app '' \<newline>  '' ''key'')) = []
   \<and> snd (start_processing (example_app '' \<newline>  '' ''key'')) = None
   \<and> snd (click flaky_search_net (example_app '' \<newline>  '' ''key'')) = []
   \<and> strip (api_key_input (example_app ''Buy coffee'' '''')) = []
   \<and> snd (start_processing (example_app ''Buy coffee'' '''')) = None
   \<and> snd (click flaky_search_net (example_app ''Buy coffee'' '''')) = []"
proof -
  have h1: "(\<forall>c \<in> set (input_text (example_app '' \<newline>  '' ''key'')). isspace c)
          \<or> (\<forall>c \<in> set (api_key_input (example_app '' \<newline>  '' ''key'')). isspace c)"
    by (simp add: example_app_def isspace_def)
  have h2: "(\<forall>c \<in> set (input_text (example_app ''Buy coffee'' '''')). isspace c)
          \<or> (\<forall>c \<in> set (api_key_input (example_app ''Buy coffee'' '''')). isspace c)"
    by (simp add: example_app_def)
  note A = start_processing_rejects_blank_input[where net = flaky_search_net, OF h1]
  note B = start_processing_rejects_blank_input[where net = flaky_search_net, OF h2]
  have a: "strip (input_text (example_app '' \<newline>  '' ''key'')) = []"
    by (simp add: example_app_def strip_def isspace_def)
  have b: "strip (api_key_input (example_app ''Buy coffee'' '''')) = []"
    by (simp add: example_app_def strip_def)
  from A B a b show ?thesis by simp
qed

section \<open>The search URL\<close>

lemma unreserved_not_space: "unreserved c \<Longrightarrow> c \<noteq> CHR '' ''"
  by (auto simp: unreserved_def)

lemma replace_space_eq_url_encoded:
  assumes "\<forall>c \<in> set s. unreserved c \<or> c = CHR '' ''"
  shows "replace (CHR '' '') (CHR ''+'') s = url_encoded_spec s"
  using assms
proof (induction s)
  case Nil
  then show ?case by (simp add: replace_def url_encoded_spec_def)
next
  case (Cons c s)
  then have IH: "replace (CHR '' '') (CHR ''+'') s = url_encoded_spec s" by simp
  from Cons.prems have "unreserved c \<or> c = CHR '' ''" by simp
  then have "[if c = CHR '' '' then CHR ''+'' else c] = url_encode_char c"
    using unreserved_not_space by (auto simp: url_encode_char_def)
  with IH show ?case by (simp add: replace_def url_encoded_spec_def)
qed

lemma url_encode_char_length:
  "length (url_encode_char c) = 1 \<longleftrightarrow> unreserved c \<or> c = CHR '' ''"
  by (simp add: url_encode_char_def utf8_def percent_def Let_def)

lemma url_encode_char_nonempty: "1 \<le> length (url_encode_char c)"
  by (simp add: url_encode_char_def utf8_def percent_def Let_def)

lemma url_encoded_spec_length: "length s \<le> length (url_encoded_spec s)"
proof (induction s)
  case Nil
  then show ?case by (simp add: url_encoded_spec_def)
next
  case (Cons c s)
  have "1 \<le> length (url_encode_char c)" by (rule url_encode_char_nonempty)
  with Cons show ?case by (simp add: url_encoded_spec_def)
qed

lemma url_encoded_same_length:
  assumes "length (url_encoded_spec s) = length s"
  shows "\<forall>c \<in> set s. unreserved c \<or> c = CHR '' ''"
  using assms
proof (induction s)
  case Nil
  then show ?case by simp
next
  case (Cons c s)
  have c1: "1 \<le> length (url_encode_char c)" by (rule url_encode_char_nonempty)
  have s1: "length s \<le> length (url_encoded_spec s)" by (rule url_encoded_spec_length)
  from Cons.prems
  have sum: "length (url_encode_char c) + length (url_encoded_spec s) = Suc (length s)"
    by (simp add: url_encoded_spec_def)
  with c1 s1 have c: "length (url_encode_char c) = 1"
    and s: "length (url_encoded_spec s) = length s"
    by linarith+
  from c have "unreserved c \<or> c = CHR '' ''"
    by (rule url_encode_char_length[THEN iffD1])
  with Cons.IH[OF s] show ?case by simp
qed

lemma replace_eq_url_encoded_only_if:
  assumes "replace (CHR '' '') (CHR ''+'') s = url_encoded_spec s"
  shows "\<forall>c \<in> set s. unreserved c \<or> c = CHR '' ''"
proof -
  have "length (url_encoded_spec s) = length (replace (CHR '' '') (CHR ''+'') s)"
    using assms by simp
  then have "length (url_encoded_spec s) = length s"
    by (simp add: replace_def)
  then show ?thesis by (rule url_encoded_same_length)
qed

text \<open>
  C9, as stated, fails: the term is not URL-encoded. For the term \<^verbatim>\<open>a&b\<close> the URL ends in
  \<^verbatim>\<open>q=a&b\<close>, where URL encoding gives \<^verbatim>\<open>a%26b\<close>.
\<close>

theorem search_url_not_url_encoded:
  "search_url ''a&b'' = ''https://duckduckgo.com/html/?q=a&b''
   \<and> url_encoded_spec ''a&b'' = ''a%26b''
   \<and> search_url ''a&b'' \<noteq> ''https://duckduckgo.com/html/?q='' @ url_encoded_spec ''a&b''"
  by (simp add: search_url_def replace_def url_encoded_spec_def url_encode_char_def
        unreserved_def utf8_def percent_def hex_digit_def)

text \<open>
  C9, amended. For every search term the request is a GET of the HTTPS address
  \<^verbatim>\<open>https://duckduckgo.com/html/?q=\<close> followed by the term in which every space is
  replaced by \<^verbatim>\<open>+\<close> and every other character is left as it is. This is the
  URL-encoded term exactly when the term is made of letters, digits, \<^verbatim>\<open>_\<close>, \<^verbatim>\<open>.\<close>,
  \<^verbatim>\<open>-\<close>, \<^verbatim>\<open>~\<close> and spaces only: if it is, the two agree, and a term with any other
  character gets a URL that differs from the URL-encoded one.
\<close>

theorem search_request_replaces_spaces:
  "search_request tm =
     GET (''https://duckduckgo.com/html/?q=''
          @ map (\<lambda>c. if c = CHR '' '' then CHR ''+'' else c) tm) search_headers 10
   \<and> ((\<forall>c \<in> set tm. unreserved c \<or> c = CHR '' '') \<longleftrightarrow>
        search_url tm = ''https://duckduckgo.com/html/?q='' @ url_encoded_spec tm)"
proof -
  have "search_request tm =
     GET (''https://duckduckgo.com/html/?q=''
          @ map (\<lambda>c. if c = CHR '' '' then CHR ''+'' else c) tm) search_headers 10"
    by (simp add: search_request_def search_url_def replace_def)
  moreover have "(\<forall>c \<in> set tm. unreserved c \<or> c = CHR '' '') \<longleftrightarrow>
        search_url tm = ''https://duckduckgo.com/html/?q='' @ url_encoded_spec tm"
  proof
    assume "\<forall>c \<in> set tm. unreserved c \<or> c = CHR '' ''"
    then have "replace (CHR '' '') (CHR ''+'') tm = url_encoded_spec tm"
      by (rule replace_space_eq_url_encoded)
    then show "search_url tm = ''https://duckduckgo.com/html/?q='' @ url_encoded_spec tm"
      by (simp add: search_url_def)
  next
    assume "search_url tm = ''https://duckduckgo.com/html/?q='' @ url_encoded_spec tm"
    then have "replace (CHR '' '') (CHR ''+'') tm = url_encoded_spec tm"
      by (simp add: search_url_def)
    then show "\<forall>c \<in> set tm. unreserved c \<or> c = CHR '' ''"
      by (rule replace_eq_url_encoded_only_if)
  qed
  ultimately show ?thesis by blast
qed

theorem search_request_replaces_spaces_witness:
  "search_request ''buy coffee online''
       = GET ''https://duckduckgo.com/html/?q=buy+coffee+online'' search_headers 10
   \<and> url_encoded_spec ''buy coffee online'' = ''buy+coffee+online''
   \<and> search_url ''a&b'' \<noteq> ''https://duckduckgo.com/html/?q='' @ url_encoded_spec ''a&b''"
proof -
  have h: "\<forall>c \<in> set ''buy coffee online''. unreserved c \<or> c = CHR '' ''"
    by (simp add: unreserved_def)
  note T = search_request_replaces_spaces[where tm = "''buy coffee online''"]
  from T[THEN conjunct1]
  have a: "search_request ''buy coffee online''
       = GET ''https://duckduckgo.com/html/?q=buy+coffee+online'' search_headers 10"
    by simp
  from T[THEN conjunct2, THEN iffD1, OF h] a
  have b: "url_encoded_spec ''buy coffee online'' = ''buy+coffee+online''"
    by (simp add: search_request_def)
  have n: "\<not> (\<forall>c \<in> set ''a&b''. unreserved c \<or> c = CHR '' '')"
    by (simp add: unreserved_def)
  note U = search_request_replaces_spaces[where tm = "''a&b''"]
  from U[THEN conjunct2] n
  have c: "search_url ''a&b'' \<noteq> ''https://duckduckgo.com/html/?q='' @ url_encoded_spec ''a&b''"
    by blast
  from a b c show ?thesis by blast
qed

end
